theory Spec2Isabelle
  imports Main
begin

section \<open>Go values used by the command runner\<close>

text \<open>
  A Go \<^verbatim>\<open>error\<close> is modelled by the text its \<^verbatim>\<open>Error()\<close> method prints and by
  whether \<^verbatim>\<open>os.IsNotExist\<close> recognises it. A nil error is \<open>None\<close>.
  \<^verbatim>\<open>errors.Wrap(err, msg)\<close> of pkg/errors keeps its cause and prints
  \<^verbatim>\<open>msg + ": " + err.Error()\<close>; \<^verbatim>\<open>os.IsNotExist\<close> does not look through such
  a wrapper.
\<close>

datatype error =
    ErrorString string bool
  | Wrap error string

fun Error_text :: "error \<Rightarrow> string" where
  "Error_text (ErrorString msg ne) = msg"
| "Error_text (Wrap err msg) = msg @ '': '' @ Error_text err"

fun os_IsNotExist :: "error \<Rightarrow> bool" where
  "os_IsNotExist (ErrorString msg ne) = ne"
| "os_IsNotExist (Wrap err msg) = False"

definition errors_New :: "string \<Rightarrow> error" where
  "errors_New msg = ErrorString msg False"

text \<open>\<^verbatim>\<open>strings.Join(elems, sep)\<close>.\<close>

fun strings_Join :: "string list \<Rightarrow> string \<Rightarrow> string" where
  "strings_Join [] sep = []"
| "strings_Join [x] sep = x"
| "strings_Join (x # y # ys) sep = x @ sep @ strings_Join (y # ys) sep"

text \<open>\<^verbatim>\<open>fmt.Errorf("%s\n%s", err, strings.Join(outputs, "\n"))\<close>.\<close>

definition newline :: string where
  "newline = [CHR 0x0A]"

definition fmt_Errorf_err_outputs :: "error \<Rightarrow> string list \<Rightarrow> error" where
  "fmt_Errorf_err_outputs err outputs =
     ErrorString (Error_text err @ newline @ strings_Join outputs newline) False"

section \<open>Data model\<close>

record Repo =
  FullName :: string
  Owner :: string
  Name :: string

record PullRequest =
  Num :: int

text \<open>\<^verbatim>\<open>valid.Step\<close> and \<^verbatim>\<open>valid.Stage\<close>.\<close>

record Step =
  StepName :: string
  ExtraArgs :: "string list"
  RunCommand :: "string list"

record Stage =
  Steps :: "Step list"

record ProjectConfig =
  Workflow :: "string option"
  ApplyRequirements :: "string list"

text \<open>
  The global configuration is used through its two lookups
  \<^verbatim>\<open>GetPlanStage\<close> and \<^verbatim>\<open>GetApplyStage\<close>, which return a nil pointer when the
  workflow has no such stage.
\<close>

record GlobalConfig =
  GetPlanStage :: "string \<Rightarrow> Stage option"
  GetApplyStage :: "string \<Rightarrow> Stage option"

text \<open>
  \<^verbatim>\<open>models.ProjectCommandContext\<close>. The logger is left out: the runner only writes
  messages to it. \<open>ProjectName\<close> is what \<^verbatim>\<open>ctx.GetProjectName()\<close> returns.
\<close>

record ProjectCommandContext =
  BaseRepo :: Repo
  HeadRepo :: Repo
  Pull :: PullRequest
  User :: string
  Workspace :: string
  RepoRelDir :: string
  ProjectConfig :: "ProjectConfig option"
  GlobalConfig :: GlobalConfig
  RebaseRepo :: bool
  RePlanCmd :: string
  ApplyCmd :: string
  ProjectName :: string

record PlanSuccess =
  TerraformOutput :: string
  LockURL :: string
  RePlanCmd_out :: string
  ApplyCmd_out :: string

record ProjectResult =
  PlanSuccess :: "PlanSuccess option"
  ApplySuccess :: string
  Failure :: string
  Error :: "error option"
  RepoRelDir_out :: string
  Workspace_out :: string
  ProjectName_out :: string

text \<open>\<^verbatim>\<open>webhooks.ApplyResult\<close>, the payload of the apply notification.\<close>

record ApplyResult =
  Workspace_hook :: string
  User_hook :: string
  Repo_hook :: Repo
  Pull_hook :: PullRequest
  Success_hook :: bool

section \<open>Collaborators, world and call trace\<close>

text \<open>
  The runner's collaborators are interfaces. Each is a function on an arbitrary
  world \<open>'w\<close> (lock tables, file system, remote services) that returns its Go
  results and the world after the call. The state of a run is the world together
  with the list of collaborator calls made so far, in order.
\<close>

datatype call =
    Locker_TryLock PullRequest string string string string
  | LockAttempt_UnlockFn string
  | WorkingDirLocker_TryLock string int string
  | WorkingDirLocker_unlockFn string int string
  | WorkingDir_Clone Repo Repo PullRequest bool string
  | WorkingDir_GetWorkingDir Repo PullRequest string
  | PullApprovedChecker_PullIsApproved Repo PullRequest
  | StepRunner_Run string "string list" string
  | Webhooks_Send ApplyResult
  | LockURLGenerator_GenerateLockURL string

record 'w state =
  world :: 'w
  calls :: "call list"

text \<open>
  \<^verbatim>\<open>TryLockResponse\<close> of the project locker. \<open>UnlockFn\<close> is the closure that
  releases the lock.
\<close>

record 'w LockAttempt =
  LockAcquired :: bool
  LockFailureReason :: string
  LockKey :: string
  UnlockFn :: "'w \<Rightarrow> error option \<times> 'w"

text \<open>
  \<^verbatim>\<open>DefaultProjectCommandRunner\<close>. The project locker receives the pull request,
  the user, the workspace and the two arguments of \<^verbatim>\<open>models.NewProject\<close>
  (repository full name and relative directory). \<open>filepath_Join\<close> stands for the
  standard library's \<^verbatim>\<open>filepath.Join\<close>.
\<close>

record 'w DefaultProjectCommandRunner =
  Locker :: "PullRequest \<Rightarrow> string \<Rightarrow> string \<Rightarrow> string \<Rightarrow> string
               \<Rightarrow> 'w \<Rightarrow> ('w LockAttempt \<times> error option) \<times> 'w"
  LockURLGenerator :: "string \<Rightarrow> 'w \<Rightarrow> string \<times> 'w"
  InitStepRunner :: "ProjectCommandContext \<Rightarrow> string list \<Rightarrow> string
               \<Rightarrow> 'w \<Rightarrow> (string \<times> error option) \<times> 'w"
  PlanStepRunner :: "ProjectCommandContext \<Rightarrow> string list \<Rightarrow> string
               \<Rightarrow> 'w \<Rightarrow> (string \<times> error option) \<times> 'w"
  ApplyStepRunner :: "ProjectCommandContext \<Rightarrow> string list \<Rightarrow> string
               \<Rightarrow> 'w \<Rightarrow> (string \<times> error option) \<times> 'w"
  RunStepRunner :: "ProjectCommandContext \<Rightarrow> string list \<Rightarrow> string
               \<Rightarrow> 'w \<Rightarrow> (string \<times> error option) \<times> 'w"
  PullApprovedChecker :: "Repo \<Rightarrow> PullRequest \<Rightarrow> 'w \<Rightarrow> (bool \<times> error option) \<times> 'w"
  WorkingDir_Clone_fn :: "Repo \<Rightarrow> Repo \<Rightarrow> PullRequest \<Rightarrow> bool \<Rightarrow> string
               \<Rightarrow> 'w \<Rightarrow> (string \<times> error option) \<times> 'w"
  WorkingDir_GetWorkingDir_fn :: "Repo \<Rightarrow> PullRequest \<Rightarrow> string
               \<Rightarrow> 'w \<Rightarrow> (string \<times> error option) \<times> 'w"
  Webhooks :: "ApplyResult \<Rightarrow> 'w \<Rightarrow> error option \<times> 'w"
  WorkingDirLocker :: "string \<Rightarrow> int \<Rightarrow> string
               \<Rightarrow> 'w \<Rightarrow> (('w \<Rightarrow> 'w) \<times> error option) \<times> 'w"
  RequireApprovalOverride :: bool
  filepath_Join :: "string \<Rightarrow> string \<Rightarrow> string"

text \<open>A collaborator call: it is recorded in the trace and acts on the world.\<close>

definition invoke :: "call \<Rightarrow> ('w \<Rightarrow> 'a \<times> 'w) \<Rightarrow> 'w state \<Rightarrow> 'a \<times> 'w state" where
  "invoke c f s =
     (case f (world s) of (r, w') \<Rightarrow> (r, \<lparr>world = w', calls = calls s @ [c]\<rparr>))"

section \<open>The step pipeline\<close>

text \<open>
  The body of the \<^verbatim>\<open>switch step.StepName\<close> of \<^verbatim>\<open>runSteps\<close>: one of the four
  runners is called; for any other name \<^verbatim>\<open>out\<close> and \<^verbatim>\<open>err\<close> keep their zero
  values and nothing is called.
\<close>

definition runStep ::
  "'w DefaultProjectCommandRunner \<Rightarrow> ProjectCommandContext \<Rightarrow> string \<Rightarrow> Step
     \<Rightarrow> 'w state \<Rightarrow> (string \<times> error option) \<times> 'w state" where
  "runStep p ctx absPath step s =
     (if StepName step = ''init'' then
        invoke (StepRunner_Run ''init'' (ExtraArgs step) absPath)
          (InitStepRunner p ctx (ExtraArgs step) absPath) s
      else if StepName step = ''plan'' then
        invoke (StepRunner_Run ''plan'' (ExtraArgs step) absPath)
          (PlanStepRunner p ctx (ExtraArgs step) absPath) s
      else if StepName step = ''apply'' then
        invoke (StepRunner_Run ''apply'' (ExtraArgs step) absPath)
          (ApplyStepRunner p ctx (ExtraArgs step) absPath) s
      else if StepName step = ''run'' then
        invoke (StepRunner_Run ''run'' (RunCommand step) absPath)
          (RunStepRunner p ctx (RunCommand step) absPath) s
      else (('''', None), s))"

text \<open>The \<^verbatim>\<open>for\<close> loop of \<^verbatim>\<open>runSteps\<close>, with \<^verbatim>\<open>outputs\<close> as accumulator.\<close>

fun runSteps_loop ::
  "'w DefaultProjectCommandRunner \<Rightarrow> ProjectCommandContext \<Rightarrow> string \<Rightarrow> Step list
     \<Rightarrow> string list \<Rightarrow> 'w state \<Rightarrow> (string list \<times> error option) \<times> 'w state" where
  "runSteps_loop p ctx absPath [] outputs s = ((outputs, None), s)"
| "runSteps_loop p ctx absPath (step # steps) outputs s =
     (case runStep p ctx absPath step s of
        ((out, err), s') \<Rightarrow>
          (let outputs' = (if out \<noteq> '''' then outputs @ [out] else outputs) in
           case err of
             Some e \<Rightarrow> ((outputs', Some e), s')
           | None \<Rightarrow> runSteps_loop p ctx absPath steps outputs' s'))"

definition runSteps ::
  "'w DefaultProjectCommandRunner \<Rightarrow> Step list \<Rightarrow> ProjectCommandContext \<Rightarrow> string
     \<Rightarrow> 'w state \<Rightarrow> (string list \<times> error option) \<times> 'w state" where
  "runSteps p steps ctx absPath s = runSteps_loop p ctx absPath steps [] s"

text \<open>Names for what the pipeline does with a step, used to state its properties.\<close>

definition known_step :: "Step \<Rightarrow> bool" where
  "known_step step =
     (StepName step = ''init'' \<or> StepName step = ''plan'' \<or> StepName step = ''apply''
        \<or> StepName step = ''run'')"

definition call_of_step :: "string \<Rightarrow> Step \<Rightarrow> call" where
  "call_of_step absPath step =
     StepRunner_Run (StepName step)
       (if StepName step = ''run'' then RunCommand step else ExtraArgs step) absPath"

definition keep_output :: "string \<Rightarrow> string list" where
  "keep_output out = (if out \<noteq> '''' then [out] else [])"

section \<open>Plan\<close>

definition defaultPlanStage :: Stage where
  "defaultPlanStage =
     \<lparr>Steps = [\<lparr>StepName = ''init'', ExtraArgs = [], RunCommand = []\<rparr>,
               \<lparr>StepName = ''plan'', ExtraArgs = [], RunCommand = []\<rparr>]\<rparr>"

definition defaultApplyStage :: Stage where
  "defaultApplyStage =
     \<lparr>Steps = [\<lparr>StepName = ''apply'', ExtraArgs = [], RunCommand = []\<rparr>]\<rparr>"

text \<open>
  The stage selection of \<^verbatim>\<open>doPlan\<close>: the default stage unless the project
  configuration names a workflow for which the global configuration has a plan stage.
\<close>

definition planStage :: "ProjectCommandContext \<Rightarrow> Stage" where
  "planStage ctx =
     (case ProjectConfig ctx of
        None \<Rightarrow> defaultPlanStage
      | Some cfg \<Rightarrow>
          (case Workflow cfg of
             None \<Rightarrow> defaultPlanStage
           | Some workflow \<Rightarrow>
               (case GetPlanStage (GlobalConfig ctx) workflow of
                  None \<Rightarrow> defaultPlanStage
                | Some configuredStage \<Rightarrow> configuredStage)))"

definition applyStage :: "ProjectCommandContext \<Rightarrow> Stage" where
  "applyStage ctx =
     (case ProjectConfig ctx of
        None \<Rightarrow> defaultApplyStage
      | Some cfg \<Rightarrow>
          (case Workflow cfg of
             None \<Rightarrow> defaultApplyStage
           | Some workflow \<Rightarrow>
               (case GetApplyStage (GlobalConfig ctx) workflow of
                  None \<Rightarrow> defaultApplyStage
                | Some configuredStage \<Rightarrow> configuredStage)))"

text \<open>The collaborator calls of \<^verbatim>\<open>doPlan\<close> and \<^verbatim>\<open>doApply\<close>, with the arguments the source passes.\<close>

definition call_Locker_TryLock ::
  "'w DefaultProjectCommandRunner \<Rightarrow> ProjectCommandContext
     \<Rightarrow> 'w state \<Rightarrow> ('w LockAttempt \<times> error option) \<times> 'w state" where
  "call_Locker_TryLock p ctx =
     invoke (Locker_TryLock (Pull ctx) (User ctx) (Workspace ctx)
               (FullName (BaseRepo ctx)) (RepoRelDir ctx))
       (Locker p (Pull ctx) (User ctx) (Workspace ctx) (FullName (BaseRepo ctx)) (RepoRelDir ctx))"

definition call_UnlockFn :: "'w LockAttempt \<Rightarrow> 'w state \<Rightarrow> error option \<times> 'w state" where
  "call_UnlockFn lockAttempt =
     invoke (LockAttempt_UnlockFn (LockKey lockAttempt)) (UnlockFn lockAttempt)"

definition call_WorkingDirLocker_TryLock ::
  "'w DefaultProjectCommandRunner \<Rightarrow> ProjectCommandContext
     \<Rightarrow> 'w state \<Rightarrow> (('w \<Rightarrow> 'w) \<times> error option) \<times> 'w state" where
  "call_WorkingDirLocker_TryLock p ctx =
     invoke (WorkingDirLocker_TryLock (FullName (BaseRepo ctx)) (Num (Pull ctx)) (Workspace ctx))
       (WorkingDirLocker p (FullName (BaseRepo ctx)) (Num (Pull ctx)) (Workspace ctx))"

text \<open>
  A deferred \<^verbatim>\<open>unlockFn()\<close>: it runs when the function returns, whatever the
  result.
\<close>

definition deferred_unlockFn ::
  "ProjectCommandContext \<Rightarrow> ('w \<Rightarrow> 'w) \<Rightarrow> 'w state \<Rightarrow> 'w state" where
  "deferred_unlockFn ctx unlockFn s =
     \<lparr>world = unlockFn (world s),
      calls = calls s @ [WorkingDirLocker_unlockFn (FullName (BaseRepo ctx)) (Num (Pull ctx))
                           (Workspace ctx)]\<rparr>"

definition call_Clone ::
  "'w DefaultProjectCommandRunner \<Rightarrow> ProjectCommandContext
     \<Rightarrow> 'w state \<Rightarrow> (string \<times> error option) \<times> 'w state" where
  "call_Clone p ctx =
     invoke (WorkingDir_Clone (BaseRepo ctx) (HeadRepo ctx) (Pull ctx) (RebaseRepo ctx)
               (Workspace ctx))
       (WorkingDir_Clone_fn p (BaseRepo ctx) (HeadRepo ctx) (Pull ctx) (RebaseRepo ctx)
          (Workspace ctx))"

definition call_GetWorkingDir ::
  "'w DefaultProjectCommandRunner \<Rightarrow> ProjectCommandContext
     \<Rightarrow> 'w state \<Rightarrow> (string \<times> error option) \<times> 'w state" where
  "call_GetWorkingDir p ctx =
     invoke (WorkingDir_GetWorkingDir (BaseRepo ctx) (Pull ctx) (Workspace ctx))
       (WorkingDir_GetWorkingDir_fn p (BaseRepo ctx) (Pull ctx) (Workspace ctx))"

definition call_PullIsApproved ::
  "'w DefaultProjectCommandRunner \<Rightarrow> ProjectCommandContext
     \<Rightarrow> 'w state \<Rightarrow> (bool \<times> error option) \<times> 'w state" where
  "call_PullIsApproved p ctx =
     invoke (PullApprovedChecker_PullIsApproved (BaseRepo ctx) (Pull ctx))
       (PullApprovedChecker p (BaseRepo ctx) (Pull ctx))"

definition call_GenerateLockURL ::
  "'w DefaultProjectCommandRunner \<Rightarrow> string \<Rightarrow> 'w state \<Rightarrow> string \<times> 'w state" where
  "call_GenerateLockURL p lockID =
     invoke (LockURLGenerator_GenerateLockURL lockID) (LockURLGenerator p lockID)"

definition webhook_result :: "ProjectCommandContext \<Rightarrow> bool \<Rightarrow> ApplyResult" where
  "webhook_result ctx success =
     \<lparr>Workspace_hook = Workspace ctx, User_hook = User ctx, Repo_hook = BaseRepo ctx,
      Pull_hook = Pull ctx, Success_hook = success\<rparr>"

definition call_Webhooks_Send ::
  "'w DefaultProjectCommandRunner \<Rightarrow> ProjectCommandContext \<Rightarrow> bool
     \<Rightarrow> 'w state \<Rightarrow> error option \<times> 'w state" where
  "call_Webhooks_Send p ctx success =
     invoke (Webhooks_Send (webhook_result ctx success)) (Webhooks p (webhook_result ctx success))"

text \<open>
  \<^verbatim>\<open>doPlan\<close> after \<^verbatim>\<open>defer unlockFn()\<close>: clone, stage selection, the pipeline
  and the result. The error of \<^verbatim>\<open>lockAttempt.UnlockFn()\<close> is only logged.
\<close>

definition doPlan_locked ::
  "'w DefaultProjectCommandRunner \<Rightarrow> ProjectCommandContext \<Rightarrow> 'w LockAttempt
     \<Rightarrow> 'w state \<Rightarrow> (PlanSuccess option \<times> string \<times> error option) \<times> 'w state" where
  "doPlan_locked p ctx lockAttempt s =
     (case call_Clone p ctx s of
        ((repoDir, Some cloneErr), s1) \<Rightarrow>
          (case call_UnlockFn lockAttempt s1 of
             (unlockErr, s2) \<Rightarrow> ((None, '''', Some cloneErr), s2))
      | ((repoDir, None), s1) \<Rightarrow>
          (case runSteps p (Steps (planStage ctx)) ctx
                  (filepath_Join p repoDir (RepoRelDir ctx)) s1 of
             ((outputs, Some err), s2) \<Rightarrow>
               (case call_UnlockFn lockAttempt s2 of
                  (unlockErr, s3) \<Rightarrow>
                    ((None, '''', Some (fmt_Errorf_err_outputs err outputs)), s3))
           | ((outputs, None), s2) \<Rightarrow>
               (case call_GenerateLockURL p (LockKey lockAttempt) s2 of
                  (url, s3) \<Rightarrow>
                    ((Some \<lparr>TerraformOutput = strings_Join outputs newline,
                            LockURL = url,
                            RePlanCmd_out = RePlanCmd ctx,
                            ApplyCmd_out = ApplyCmd ctx\<rparr>, '''', None), s3))))"

definition doPlan ::
  "'w DefaultProjectCommandRunner \<Rightarrow> ProjectCommandContext
     \<Rightarrow> 'w state \<Rightarrow> (PlanSuccess option \<times> string \<times> error option) \<times> 'w state" where
  "doPlan p ctx s =
     (case call_Locker_TryLock p ctx s of
        ((lockAttempt, Some err), s1) \<Rightarrow> ((None, '''', Some (Wrap err ''acquiring lock'')), s1)
      | ((lockAttempt, None), s1) \<Rightarrow>
          (if \<not> LockAcquired lockAttempt then
             ((None, LockFailureReason lockAttempt, None), s1)
           else
             (case call_WorkingDirLocker_TryLock p ctx s1 of
                ((unlockFn, Some err), s2) \<Rightarrow> ((None, '''', Some err), s2)
              | ((unlockFn, None), s2) \<Rightarrow>
                  (case doPlan_locked p ctx lockAttempt s2 of
                     (r, s3) \<Rightarrow> (r, deferred_unlockFn ctx unlockFn s3)))))"

definition Plan ::
  "'w DefaultProjectCommandRunner \<Rightarrow> ProjectCommandContext
     \<Rightarrow> 'w state \<Rightarrow> ProjectResult \<times> 'w state" where
  "Plan p ctx s =
     (case doPlan p ctx s of
        ((planSuccess, failure, err), s') \<Rightarrow>
          (\<lparr>PlanSuccess = planSuccess,
            ApplySuccess = '''',
            Failure = failure,
            Error = err,
            RepoRelDir_out = RepoRelDir ctx,
            Workspace_out = Workspace ctx,
            ProjectName_out = ProjectName ctx\<rparr>, s'))"

section \<open>Apply\<close>

text \<open>
  Modelled from the spec: the constant \<^verbatim>\<open>raw.ApprovedApplyRequirement\<close> is declared
  outside the given sources; the spec names the requirement "approved".
\<close>

definition ApprovedApplyRequirement :: string where
  "ApprovedApplyRequirement = ''approved''"

text \<open>
  The message of the error returned when no working directory exists. The source
  text has an en dash (U+2013, three bytes in UTF-8) between "cloned" and "did".
\<close>

definition not_cloned_message :: string where
  "not_cloned_message =
     ''project has not been cloned'' @ [CHR 0xE2, CHR 0x80, CHR 0x93] @ ''did you run plan?''"

definition must_be_approved_message :: string where
  "must_be_approved_message = ''Pull request must be approved before running apply.''"

text \<open>
  The effective apply requirements of \<^verbatim>\<open>doApply\<close>: those of the project
  configuration, replaced by the single approved requirement when
  \<^verbatim>\<open>RequireApprovalOverride\<close> is set.
\<close>

definition applyRequirements ::
  "'w DefaultProjectCommandRunner \<Rightarrow> ProjectCommandContext \<Rightarrow> string list" where
  "applyRequirements p ctx =
     (if RequireApprovalOverride p then [ApprovedApplyRequirement]
      else (case ProjectConfig ctx of
              None \<Rightarrow> []
            | Some cfg \<Rightarrow> ApplyRequirements cfg))"

text \<open>
  The loop over the requirements. \<open>Some r\<close> is an early return of \<^verbatim>\<open>doApply\<close>
  with the triple \<open>r\<close>; \<open>None\<close> means that the loop ran to its end.
\<close>

fun checkApplyRequirements ::
  "'w DefaultProjectCommandRunner \<Rightarrow> ProjectCommandContext \<Rightarrow> string list
     \<Rightarrow> 'w state \<Rightarrow> (string \<times> string \<times> error option) option \<times> 'w state" where
  "checkApplyRequirements p ctx [] s = (None, s)"
| "checkApplyRequirements p ctx (req # reqs) s =
     (if req = ApprovedApplyRequirement then
        (case call_PullIsApproved p ctx s of
           ((approved, Some err), s1) \<Rightarrow>
             (Some ('''', '''', Some (Wrap err ''checking if pull request was approved'')), s1)
         | ((approved, None), s1) \<Rightarrow>
             (if \<not> approved then (Some ('''', must_be_approved_message, None), s1)
              else checkApplyRequirements p ctx reqs s1))
      else checkApplyRequirements p ctx reqs s)"

text \<open>
  \<^verbatim>\<open>doApply\<close> after \<^verbatim>\<open>defer unlockFn()\<close>: stage selection, the pipeline, the
  webhook (its error is dropped) and the result.
\<close>

definition doApply_locked ::
  "'w DefaultProjectCommandRunner \<Rightarrow> ProjectCommandContext \<Rightarrow> string
     \<Rightarrow> 'w state \<Rightarrow> (string \<times> string \<times> error option) \<times> 'w state" where
  "doApply_locked p ctx absPath s =
     (case runSteps p (Steps (applyStage ctx)) ctx absPath s of
        ((outputs, err), s1) \<Rightarrow>
          (case call_Webhooks_Send p ctx (err = None) s1 of
             (sendErr, s2) \<Rightarrow>
               (case err of
                  Some e \<Rightarrow> (('''', '''', Some (fmt_Errorf_err_outputs e outputs)), s2)
                | None \<Rightarrow> ((strings_Join outputs newline, '''', None), s2))))"

definition doApply ::
  "'w DefaultProjectCommandRunner \<Rightarrow> ProjectCommandContext
     \<Rightarrow> 'w state \<Rightarrow> (string \<times> string \<times> error option) \<times> 'w state" where
  "doApply p ctx s =
     (case call_GetWorkingDir p ctx s of
        ((repoDir, Some err), s1) \<Rightarrow>
          (if os_IsNotExist err then (('''', '''', Some (errors_New not_cloned_message)), s1)
           else (('''', '''', Some err), s1))
      | ((repoDir, None), s1) \<Rightarrow>
          (case checkApplyRequirements p ctx (applyRequirements p ctx) s1 of
             (Some r, s2) \<Rightarrow> (r, s2)
           | (None, s2) \<Rightarrow>
               (case call_WorkingDirLocker_TryLock p ctx s2 of
                  ((unlockFn, Some err), s3) \<Rightarrow> (('''', '''', Some err), s3)
                | ((unlockFn, None), s3) \<Rightarrow>
                    (case doApply_locked p ctx
                            (filepath_Join p repoDir (RepoRelDir ctx)) s3 of
                       (r, s4) \<Rightarrow> (r, deferred_unlockFn ctx unlockFn s4)))))"

definition Apply ::
  "'w DefaultProjectCommandRunner \<Rightarrow> ProjectCommandContext
     \<Rightarrow> 'w state \<Rightarrow> ProjectResult \<times> 'w state" where
  "Apply p ctx s =
     (case doApply p ctx s of
        ((applyOut, failure, err), s') \<Rightarrow>
          (\<lparr>PlanSuccess = None,
            ApplySuccess = applyOut,
            Failure = failure,
            Error = err,
            RepoRelDir_out = RepoRelDir ctx,
            Workspace_out = Workspace ctx,
            ProjectName_out = ProjectName ctx\<rparr>, s'))"

section \<open>Shape of a result\<close>


section \<open>Text of error messages\<close>

text \<open>\<^verbatim>\<open>strings.HasPrefix\<close> and \<^verbatim>\<open>strings.Contains\<close>.\<close>

fun strings_HasPrefix :: "string \<Rightarrow> string \<Rightarrow> bool" where
  "strings_HasPrefix s [] = True"
| "strings_HasPrefix [] (c # cs) = False"
| "strings_HasPrefix (x # xs) (c # cs) = (x = c \<and> strings_HasPrefix xs cs)"

fun strings_Contains :: "string \<Rightarrow> string \<Rightarrow> bool" where
  "strings_Contains [] sub = (sub = [])"
| "strings_Contains (x # xs) sub = (strings_HasPrefix (x # xs) sub \<or> strings_Contains xs sub)"

text \<open>
  \<open>occurs_before a b txt\<close>: the text has an occurrence of \<open>a\<close> followed, at its end
  or later, by an occurrence of \<open>b\<close>.
\<close>

fun occurs_before :: "string \<Rightarrow> string \<Rightarrow> string \<Rightarrow> bool" where
  "occurs_before a b [] = (a = [] \<and> b = [])"
| "occurs_before a b (x # xs) =
     ((strings_HasPrefix (x # xs) a \<and> strings_Contains (drop (length a) (x # xs)) b)
        \<or> occurs_before a b xs)"

section \<open>The GitHub client\<close>

text \<open>
  Of go-github's \<^verbatim>\<open>PullRequest\<close> the client reads \<^verbatim>\<open>Mergeable\<close>, a \<^verbatim>\<open>*bool\<close>: \<open>None\<close> is
  the nil pointer. \<^verbatim>\<open>client.PullRequests.Get\<close> is the remote call; it returns a pointer
  to the pull request and an error. Dereferencing a nil pointer panics.
\<close>

record github_PullRequest =
  Mergeable :: "bool option"

record GithubClient =
  client_PullRequests_Get :: "string \<Rightarrow> string \<Rightarrow> int \<Rightarrow> github_PullRequest option \<times> error option"

datatype 'a go_result = Returns 'a | Panics

definition GetPullRequest ::
  "GithubClient \<Rightarrow> Repo \<Rightarrow> int \<Rightarrow> github_PullRequest option \<times> error option" where
  "GetPullRequest g repo num = client_PullRequests_Get g (Owner repo) (Name repo) num"

definition PullIsApproved ::
  "GithubClient \<Rightarrow> Repo \<Rightarrow> PullRequest \<Rightarrow> (bool \<times> error option) go_result" where
  "PullIsApproved g repo pull =
     (case GetPullRequest g repo (Num pull) of
        (request, Some err) \<Rightarrow> Returns (False, Some err)
      | (None, None) \<Rightarrow> Panics
      | (Some request, None) \<Rightarrow>
          (case Mergeable request of
             None \<Rightarrow> Panics
           | Some mergeable \<Rightarrow> Returns (mergeable, None)))"

text \<open>
  What GitHub holds for one pull request: the object served by the pull request
  endpoint and, apart from it, the states of the submitted reviews. The approval
  status the spec speaks of is that some review has state \<^verbatim>\<open>APPROVED\<close>.
\<close>

record github_pull_state =
  pull_object :: github_PullRequest
  review_states :: "string list"

definition approved_by_review :: "github_pull_state \<Rightarrow> bool" where
  "approved_by_review st = (''APPROVED'' \<in> set (review_states st))"

definition github_serving :: "github_pull_state \<Rightarrow> GithubClient" where
  "github_serving st =
     \<lparr>client_PullRequests_Get = (\<lambda>owner name num. (Some (pull_object st), None))\<rparr>"

section \<open>A concrete runner\<close>

text \<open>
  A small world for running the model on concrete inputs: two flags say whether the
  project lock and the working-directory lock are held, and a record fixes what each
  collaborator answers. Its path join is plain concatenation with a slash; it agrees
  with \<^verbatim>\<open>filepath.Join\<close> on clean paths such as the ones used below, and does no
  cleaning.
\<close>

record example_world =
  project_lock_held :: bool
  workdir_lock_held :: bool

record example_outcomes =
  lock_acquired :: bool
  lock_reason :: string
  lock_err :: "error option"
  workdir_lock_err :: "error option"
  clone_out :: "string \<times> error option"
  getwd_out :: "string \<times> error option"
  approved_out :: "bool \<times> error option"
  init_out :: "string \<times> error option"
  plan_out :: "string \<times> error option"
  apply_out :: "string \<times> error option"
  run_out :: "string \<times> error option"

definition example_unlock :: "example_world \<Rightarrow> error option \<times> example_world" where
  "example_unlock w = (None, w\<lparr>project_lock_held := False\<rparr>)"

definition example_attempt :: "example_outcomes \<Rightarrow> example_world LockAttempt" where
  "example_attempt oc =
     \<lparr>LockAcquired = lock_acquired oc, LockFailureReason = lock_reason oc,
      LockKey = ''key'', UnlockFn = example_unlock\<rparr>"

definition example_workdir_unlock :: "example_world \<Rightarrow> example_world" where
  "example_workdir_unlock w = w\<lparr>workdir_lock_held := False\<rparr>"

definition example_runner ::
  "example_outcomes \<Rightarrow> bool \<Rightarrow> example_world DefaultProjectCommandRunner" where
  "example_runner oc override =
     \<lparr>Locker = (\<lambda>pull user workspace repo dir w.
         ((example_attempt oc, lock_err oc),
          (if lock_acquired oc \<and> lock_err oc = None
           then w\<lparr>project_lock_held := True\<rparr> else w))),
      LockURLGenerator = (\<lambda>lockID w. (''https://atlantis/lock?id='' @ lockID, w)),
      InitStepRunner = (\<lambda>ctx args path w. (init_out oc, w)),
      PlanStepRunner = (\<lambda>ctx args path w. (plan_out oc, w)),
      ApplyStepRunner = (\<lambda>ctx args path w. (apply_out oc, w)),
      RunStepRunner = (\<lambda>ctx args path w. (run_out oc, w)),
      PullApprovedChecker = (\<lambda>repo pull w. (approved_out oc, w)),
      WorkingDir_Clone_fn = (\<lambda>base head pull rebase workspace w. (clone_out oc, w)),
      WorkingDir_GetWorkingDir_fn = (\<lambda>repo pull workspace w. (getwd_out oc, w)),
      Webhooks = (\<lambda>res w. (None, w)),
      WorkingDirLocker = (\<lambda>repo num workspace w.
         ((example_workdir_unlock, workdir_lock_err oc),
          (if workdir_lock_err oc = None then w\<lparr>workdir_lock_held := True\<rparr> else w))),
      RequireApprovalOverride = override,
      filepath_Join = (\<lambda>dir rel. dir @ ''/'' @ rel)\<rparr>"

definition all_succeed :: example_outcomes where
  "all_succeed =
     \<lparr>lock_acquired = True, lock_reason = '''', lock_err = None, workdir_lock_err = None,
      clone_out = (''/data/repo'', None), getwd_out = (''/data/repo'', None),
      approved_out = (True, None), init_out = (''A'', None), plan_out = (''B'', None),
      apply_out = (''C'', None), run_out = ('''', None)\<rparr>"

definition example_repo :: Repo where
  "example_repo = \<lparr>FullName = ''owner/repo'', Owner = ''owner'', Name = ''repo''\<rparr>"

definition example_pull :: PullRequest where
  "example_pull = \<lparr>Num = 7\<rparr>"

definition quiet_stage :: Stage where
  "quiet_stage = \<lparr>Steps = [\<lparr>StepName = ''run'', ExtraArgs = [], RunCommand = [''true'']\<rparr>]\<rparr>"

text \<open>A context without project configuration, and one whose workflow has a plan
  and an apply stage of a single \<^verbatim>\<open>run\<close> step.\<close>

definition example_ctx :: ProjectCommandContext where
  "example_ctx =
     \<lparr>BaseRepo = example_repo, HeadRepo = example_repo, Pull = example_pull,
      User = ''alice'', Workspace = ''default'', RepoRelDir = ''infra'',
      ProjectConfig = None,
      GlobalConfig = \<lparr>GetPlanStage = (\<lambda>w. None), GetApplyStage = (\<lambda>w. None)\<rparr>,
      RebaseRepo = False, RePlanCmd = ''atlantis plan -d infra'',
      ApplyCmd = ''atlantis apply -d infra'', ProjectName = ''''\<rparr>"

definition workflow_ctx :: ProjectCommandContext where
  "workflow_ctx =
     example_ctx
       \<lparr>ProjectConfig := Some \<lparr>Workflow = Some ''quiet'', ApplyRequirements = [''approved'']\<rparr>,
        GlobalConfig := \<lparr>GetPlanStage = (\<lambda>w. if w = ''quiet'' then Some quiet_stage else None),
                         GetApplyStage = (\<lambda>w. if w = ''quiet'' then Some quiet_stage else None)\<rparr>\<rparr>"

definition start :: "example_world state" where
  "start = \<lparr>world = \<lparr>project_lock_held = False, workdir_lock_held = False\<rparr>, calls = []\<rparr>"

section \<open>Properties of the step pipeline\<close>

lemma runSteps_loop_step:
  "runStep p ctx absPath step s = ((out, err), s1) \<Longrightarrow>
   runSteps_loop p ctx absPath (step # steps) acc s =
     (case err of
        Some e \<Rightarrow> ((acc @ keep_output out, Some e), s1)
      | None \<Rightarrow> runSteps_loop p ctx absPath steps (acc @ keep_output out) s1)"
  by (cases "out = []"; cases err) (simp_all add: keep_output_def)

lemma runSteps_loop_acc:
  "runSteps_loop p ctx absPath steps acc s =
     (case runSteps_loop p ctx absPath steps [] s of
        ((outs, r), s') \<Rightarrow> ((acc @ outs, r), s'))"
proof (induction steps arbitrary: acc s)
  case Nil
  show ?case by simp
next
  case (Cons step steps)
  obtain out err s1 where st: "runStep p ctx absPath step s = ((out, err), s1)"
    by (metis prod.exhaust)
  note step = runSteps_loop_step [OF st, of steps]
  show ?case
  proof (cases err)
    case (Some e)
    then show ?thesis by (simp only: step) simp
  next
    case None
    obtain outs r s2 where rest: "runSteps_loop p ctx absPath steps [] s1 = ((outs, r), s2)"
      by (metis prod.exhaust)
    have a: "runSteps_loop p ctx absPath steps (acc @ keep_output out) s1 =
               (((acc @ keep_output out) @ outs, r), s2)"
      by (subst Cons.IH) (simp add: rest)
    have b: "runSteps_loop p ctx absPath steps ([] @ keep_output out) s1 =
               (([] @ keep_output out @ outs, r), s2)"
      by (subst Cons.IH) (simp add: rest)
    show ?thesis
      by (simp only: step None option.case a b) simp
  qed
qed

lemma runSteps_Nil: "runSteps p [] ctx absPath s = (([], None), s)"
  by (simp add: runSteps_def)

lemma runSteps_Cons_error:
  "runStep p ctx absPath step s = ((out, Some e), s1) \<Longrightarrow>
   runSteps p (step # steps) ctx absPath s = ((keep_output out, Some e), s1)"
  by (simp only: runSteps_def runSteps_loop_step) simp

lemma runSteps_Cons_ok:
  assumes "runStep p ctx absPath step s = ((out, None), s1)"
    and "runSteps p steps ctx absPath s1 = ((outs, r), s2)"
  shows "runSteps p (step # steps) ctx absPath s = ((keep_output out @ outs, r), s2)"
proof -
  have "runSteps_loop p ctx absPath steps ([] @ keep_output out) s1 =
          (([] @ keep_output out @ outs, r), s2)"
    using assms(2) by (subst runSteps_loop_acc) (simp add: runSteps_def)
  then show ?thesis
    by (simp only: runSteps_def runSteps_loop_step [OF assms(1)] option.case)
      simp
qed

lemma runSteps_append_error:
  "runSteps p xs ctx absPath s = ((o1, Some e), s1) \<Longrightarrow>
   runSteps p (xs @ ys) ctx absPath s = ((o1, Some e), s1)"
proof (induction xs arbitrary: s o1)
  case Nil
  then show ?case by (simp add: runSteps_Nil)
next
  case (Cons x xs)
  obtain out err s2 where st: "runStep p ctx absPath x s = ((out, err), s2)"
    by (metis prod.exhaust)
  show ?case
  proof (cases err)
    case (Some e')
    from st Some Cons.prems have "o1 = keep_output out" "e' = e" "s2 = s1"
      by (simp_all add: runSteps_Cons_error)
    with st Some show ?thesis
      by (simp add: runSteps_Cons_error)
  next
    case None
    obtain o2 r2 s3 where rest: "runSteps p xs ctx absPath s2 = ((o2, r2), s3)"
      by (metis prod.exhaust)
    from st None rest Cons.prems have eq: "o1 = keep_output out @ o2" "r2 = Some e" "s3 = s1"
      by (simp_all add: runSteps_Cons_ok)
    from rest eq have "runSteps p (xs @ ys) ctx absPath s2 = ((o2, Some e), s1)"
      by (simp add: Cons.IH)
    with st None eq show ?thesis
      by (simp add: runSteps_Cons_ok)
  qed
qed

lemma runSteps_append_ok:
  "runSteps p xs ctx absPath s = ((o1, None), s1) \<Longrightarrow>
   runSteps p ys ctx absPath s1 = ((o2, r), s2) \<Longrightarrow>
   runSteps p (xs @ ys) ctx absPath s = ((o1 @ o2, r), s2)"
proof (induction xs arbitrary: s o1)
  case Nil
  then show ?case by (simp add: runSteps_Nil)
next
  case (Cons x xs)
  obtain out err s3 where st: "runStep p ctx absPath x s = ((out, err), s3)"
    by (metis prod.exhaust)
  show ?case
  proof (cases err)
    case (Some e')
    with st Cons.prems(1) show ?thesis
      by (simp add: runSteps_Cons_error)
  next
    case None
    obtain o3 r3 s4 where rest: "runSteps p xs ctx absPath s3 = ((o3, r3), s4)"
      by (metis prod.exhaust)
    from st None rest Cons.prems(1) have eq: "o1 = keep_output out @ o3" "r3 = None" "s4 = s1"
      by (simp_all add: runSteps_Cons_ok)
    from rest eq Cons.prems(2) have "runSteps p (xs @ ys) ctx absPath s3 = ((o3 @ o2, r), s2)"
      by (simp add: Cons.IH)
    with st None eq show ?thesis
      by (simp add: runSteps_Cons_ok)
  qed
qed

lemma runStep_unknown:
  "\<not> known_step step \<Longrightarrow> runStep p ctx absPath step s = (('''', None), s)"
  by (simp add: known_step_def runStep_def)

lemma invoke_calls: "calls (snd (invoke c f s)) = calls s @ [c]"
  by (simp add: invoke_def split: prod.splits)

lemma runStep_known_calls:
  "known_step step \<Longrightarrow>
     calls (snd (runStep p ctx absPath step s)) = calls s @ [call_of_step absPath step]"
  by (auto simp add: known_step_def runStep_def invoke_calls call_of_step_def)

lemma runStep_calls:
  "calls (snd (runStep p ctx absPath step s)) =
     calls s @ map (call_of_step absPath) (filter known_step [step])"
  by (cases "known_step step") (simp_all add: runStep_known_calls runStep_unknown)

lemma runSteps_calls:
  "\<exists>k\<le>length steps.
     calls (snd (runSteps p steps ctx absPath s)) =
       calls s @ map (call_of_step absPath) (filter known_step (take k steps)) \<and>
     (snd (fst (runSteps p steps ctx absPath s)) = None \<longrightarrow> k = length steps)"
proof (induction steps arbitrary: s)
  case Nil
  show ?case by (simp add: runSteps_Nil)
next
  case (Cons x xs)
  obtain out err s1 where st: "runStep p ctx absPath x s = ((out, err), s1)"
    by (metis prod.exhaust)
  have c1: "calls s1 = calls s @ map (call_of_step absPath) (filter known_step [x])"
    using runStep_calls [of p ctx absPath x s] st by simp
  show ?case
  proof (cases err)
    case (Some e)
    with st c1 have "calls (snd (runSteps p (x # xs) ctx absPath s)) =
       calls s @ map (call_of_step absPath) (filter known_step (take 1 (x # xs))) \<and>
     (snd (fst (runSteps p (x # xs) ctx absPath s)) = None \<longrightarrow> 1 = length (x # xs))"
      by (simp add: runSteps_Cons_error)
    then show ?thesis by (intro exI [of _ 1]) simp
  next
    case None
    obtain outs r s2 where rest: "runSteps p xs ctx absPath s1 = ((outs, r), s2)"
      by (metis prod.exhaust)
    from Cons.IH [of s1] rest obtain k where k: "k \<le> length xs"
      "calls s2 = calls s1 @ map (call_of_step absPath) (filter known_step (take k xs))"
      "r = None \<longrightarrow> k = length xs"
      by auto
    have full: "runSteps p (x # xs) ctx absPath s = ((keep_output out @ outs, r), s2)"
      using st None rest by (simp add: runSteps_Cons_ok)
    have "calls (snd (runSteps p (x # xs) ctx absPath s)) =
       calls s @ map (call_of_step absPath) (filter known_step (take (Suc k) (x # xs))) \<and>
     (snd (fst (runSteps p (x # xs) ctx absPath s)) = None \<longrightarrow> Suc k = length (x # xs))"
      using k c1 by (simp add: full)
    with k(1) show ?thesis by (intro exI [of _ "Suc k"]) simp
  qed
qed

lemma runSteps_skip_head:
  "\<not> known_step x \<Longrightarrow>
   runSteps p (x # post) ctx absPath s = runSteps p post ctx absPath s"
proof -
  assume u: "\<not> known_step x"
  obtain outs r s2 where rest: "runSteps p post ctx absPath s = ((outs, r), s2)"
    by (metis prod.exhaust)
  have "runSteps p (x # post) ctx absPath s = ((keep_output '''' @ outs, r), s2)"
    using runStep_unknown [OF u] rest by (rule runSteps_Cons_ok)
  with rest show ?thesis by (simp add: keep_output_def)
qed

lemmas example_defs =
  example_runner_def all_succeed_def example_ctx_def workflow_ctx_def start_def
  example_attempt_def example_unlock_def example_workdir_unlock_def example_repo_def
  example_pull_def quiet_stage_def

lemmas runner_defs =
  Plan_def doPlan_def doPlan_locked_def Apply_def doApply_def doApply_locked_def
  call_Locker_TryLock_def call_UnlockFn_def call_WorkingDirLocker_TryLock_def
  deferred_unlockFn_def call_Clone_def call_GetWorkingDir_def call_PullIsApproved_def
  call_GenerateLockURL_def call_Webhooks_Send_def webhook_result_def invoke_def
  planStage_def applyStage_def defaultPlanStage_def defaultApplyStage_def
  applyRequirements_def ApprovedApplyRequirement_def runSteps_def runStep_def
  fmt_Errorf_err_outputs_def newline_def errors_New_def

lemma runSteps_single:
  assumes "runStep p ctx absPath step s = ((out, err), s1)"
  shows "runSteps p [step] ctx absPath s = ((keep_output out, err), s1)"
proof (cases err)
  case (Some e)
  with assms show ?thesis by (simp add: runSteps_Cons_error)
next
  case None
  have "runSteps p [step] ctx absPath s = ((keep_output out @ [], None), s1)"
    using assms None by (intro runSteps_Cons_ok) (simp_all add: runSteps_Nil)
  with None show ?thesis by simp
qed

lemma runSteps_single_invoke:
  assumes "runStep p ctx absPath step s = invoke c f s"
  shows "runSteps p [step] ctx absPath s =
     (case f (world s) of
        ((out, err), w') \<Rightarrow> ((keep_output out, err), \<lparr>world = w', calls = calls s @ [c]\<rparr>))"
proof -
  obtain out err w' where f: "f (world s) = ((out, err), w')"
    by (metis prod.exhaust)
  then have "invoke c f s = ((out, err), \<lparr>world = w', calls = calls s @ [c]\<rparr>)"
    by (simp add: invoke_def)
  with assms have "runSteps p [step] ctx absPath s =
      ((keep_output out, err), \<lparr>world = w', calls = calls s @ [c]\<rparr>)"
    by (intro runSteps_single) simp
  with f show ?thesis by simp
qed

text \<open>
  C8, as the code has it. A step named init, plan, apply or run is run by the
  runner of that name, with the step's extra arguments (its command, for run) and the
  path; its output is kept when it is not empty. The steps are run in the given
  order: a step that follows a successful run of the steps before it is run in the
  state they left. When it returns an error the pipeline returns that error at once
  and the state is the one this step left, so no later step is run. The outputs
  returned with the error are the non-empty outputs of the earlier steps followed
  by the failing step's own output when it is not empty: the source appends the
  output before it looks at the error. The runner calls made are those of a prefix
  of the steps, in order, and of all steps when no error is returned.
\<close>

theorem runSteps_in_order_until_first_error:
  "(StepName step = ''init'' \<longrightarrow>
      runSteps p [step] ctx absPath s =
        (case InitStepRunner p ctx (ExtraArgs step) absPath (world s) of
           ((out, err), w') \<Rightarrow>
             ((keep_output out, err),
              \<lparr>world = w',
               calls = calls s @ [StepRunner_Run ''init'' (ExtraArgs step) absPath]\<rparr>))) \<and>
   (StepName step = ''plan'' \<longrightarrow>
      runSteps p [step] ctx absPath s =
        (case PlanStepRunner p ctx (ExtraArgs step) absPath (world s) of
           ((out, err), w') \<Rightarrow>
             ((keep_output out, err),
              \<lparr>world = w',
               calls = calls s @ [StepRunner_Run ''plan'' (ExtraArgs step) absPath]\<rparr>))) \<and>
   (StepName step = ''apply'' \<longrightarrow>
      runSteps p [step] ctx absPath s =
        (case ApplyStepRunner p ctx (ExtraArgs step) absPath (world s) of
           ((out, err), w') \<Rightarrow>
             ((keep_output out, err),
              \<lparr>world = w',
               calls = calls s @ [StepRunner_Run ''apply'' (ExtraArgs step) absPath]\<rparr>))) \<and>
   (StepName step = ''run'' \<longrightarrow>
      runSteps p [step] ctx absPath s =
        (case RunStepRunner p ctx (RunCommand step) absPath (world s) of
           ((out, err), w') \<Rightarrow>
             ((keep_output out, err),
              \<lparr>world = w',
               calls = calls s @ [StepRunner_Run ''run'' (RunCommand step) absPath]\<rparr>))) \<and>
   (runSteps p pre ctx absPath s = ((outs, None), s1) \<and>
      runSteps p [step] ctx absPath s1 = ((out1, Some e), s2) \<longrightarrow>
      runSteps p (pre @ step # post) ctx absPath s = ((outs @ out1, Some e), s2)) \<and>
   (runSteps p pre ctx absPath s = ((outs, None), s1) \<and>
      runSteps p [step] ctx absPath s1 = ((out1, r), s2) \<longrightarrow>
      runSteps p (pre @ [step]) ctx absPath s = ((outs @ out1, r), s2)) \<and>
   runSteps p [] ctx absPath s = (([], None), s) \<and>
   (\<exists>k\<le>length steps.
      calls (snd (runSteps p steps ctx absPath s)) =
        calls s @ map (call_of_step absPath) (filter known_step (take k steps)) \<and>
      (snd (fst (runSteps p steps ctx absPath s)) = None \<longrightarrow> k = length steps))"
proof (intro conjI impI)
  assume "StepName step = ''init''"
  then have "runStep p ctx absPath step s =
      invoke (StepRunner_Run ''init'' (ExtraArgs step) absPath)
        (InitStepRunner p ctx (ExtraArgs step) absPath) s"
    by (simp add: runStep_def)
  then show "runSteps p [step] ctx absPath s =
        (case InitStepRunner p ctx (ExtraArgs step) absPath (world s) of
           ((out, err), w') \<Rightarrow>
             ((keep_output out, err),
              \<lparr>world = w',
               calls = calls s @ [StepRunner_Run ''init'' (ExtraArgs step) absPath]\<rparr>))"
    by (rule runSteps_single_invoke)
next
  assume "StepName step = ''plan''"
  then have "runStep p ctx absPath step s =
      invoke (StepRunner_Run ''plan'' (ExtraArgs step) absPath)
        (PlanStepRunner p ctx (ExtraArgs step) absPath) s"
    by (simp add: runStep_def)
  then show "runSteps p [step] ctx absPath s =
        (case PlanStepRunner p ctx (ExtraArgs step) absPath (world s) of
           ((out, err), w') \<Rightarrow>
             ((keep_output out, err),
              \<lparr>world = w',
               calls = calls s @ [StepRunner_Run ''plan'' (ExtraArgs step) absPath]\<rparr>))"
    by (rule runSteps_single_invoke)
next
  assume "StepName step = ''apply''"
  then have "runStep p ctx absPath step s =
      invoke (StepRunner_Run ''apply'' (ExtraArgs step) absPath)
        (ApplyStepRunner p ctx (ExtraArgs step) absPath) s"
    by (simp add: runStep_def)
  then show "runSteps p [step] ctx absPath s =
        (case ApplyStepRunner p ctx (ExtraArgs step) absPath (world s) of
           ((out, err), w') \<Rightarrow>
             ((keep_output out, err),
              \<lparr>world = w',
               calls = calls s @ [StepRunner_Run ''apply'' (ExtraArgs step) absPath]\<rparr>))"
    by (rule runSteps_single_invoke)
next
  assume "StepName step = ''run''"
  then have "runStep p ctx absPath step s =
      invoke (StepRunner_Run ''run'' (RunCommand step) absPath)
        (RunStepRunner p ctx (RunCommand step) absPath) s"
    by (simp add: runStep_def)
  then show "runSteps p [step] ctx absPath s =
        (case RunStepRunner p ctx (RunCommand step) absPath (world s) of
           ((out, err), w') \<Rightarrow>
             ((keep_output out, err),
              \<lparr>world = w',
               calls = calls s @ [StepRunner_Run ''run'' (RunCommand step) absPath]\<rparr>))"
    by (rule runSteps_single_invoke)
next
  assume a: "runSteps p pre ctx absPath s = ((outs, None), s1) \<and>
      runSteps p [step] ctx absPath s1 = ((out1, Some e), s2)"
  then have "runSteps p ([step] @ post) ctx absPath s1 = ((out1, Some e), s2)"
    by (intro runSteps_append_error) simp
  with a show "runSteps p (pre @ step # post) ctx absPath s = ((outs @ out1, Some e), s2)"
    by (simp add: runSteps_append_ok)
next
  assume "runSteps p pre ctx absPath s = ((outs, None), s1) \<and>
      runSteps p [step] ctx absPath s1 = ((out1, r), s2)"
  then show "runSteps p (pre @ [step]) ctx absPath s = ((outs @ out1, r), s2)"
    by (simp add: runSteps_append_ok)
next
  show "runSteps p [] ctx absPath s = (([], None), s)"
    by (rule runSteps_Nil)
next
  show "\<exists>k\<le>length steps.
      calls (snd (runSteps p steps ctx absPath s)) =
        calls s @ map (call_of_step absPath) (filter known_step (take k steps)) \<and>
      (snd (fst (runSteps p steps ctx absPath s)) = None \<longrightarrow> k = length steps)"
    by (rule runSteps_calls)
qed

theorem runSteps_in_order_until_first_error_witness:
  "runSteps (example_runner (all_succeed\<lparr>plan_out := (''X'', Some (ErrorString ''E'' False))\<rparr>) False)
     (Steps defaultPlanStage @ Steps defaultApplyStage) example_ctx ''/data/repo/infra'' start =
   (([''A'', ''X''], Some (ErrorString ''E'' False)),
    start\<lparr>calls := [StepRunner_Run ''init'' [] ''/data/repo/infra'',
                     StepRunner_Run ''plan'' [] ''/data/repo/infra'']\<rparr>) \<and>
   runSteps (example_runner all_succeed False)
     [\<lparr>StepName = ''apply'', ExtraArgs = [''-auto-approve''], RunCommand = []\<rparr>]
     example_ctx ''/data/repo/infra'' start =
   (([''C''], None),
    start\<lparr>calls := [StepRunner_Run ''apply'' [''-auto-approve''] ''/data/repo/infra'']\<rparr>) \<and>
   runSteps (example_runner (all_succeed\<lparr>run_out := (''R'', None)\<rparr>) False)
     [\<lparr>StepName = ''run'', ExtraArgs = [], RunCommand = [''echo'', ''R'']\<rparr>]
     example_ctx ''/data/repo/infra'' start =
   (([''R''], None),
    start\<lparr>calls := [StepRunner_Run ''run'' [''echo'', ''R''] ''/data/repo/infra'']\<rparr>)"
proof -
  let ?p = "example_runner (all_succeed\<lparr>plan_out := (''X'', Some (ErrorString ''E'' False))\<rparr>) False"
  let ?init = "\<lparr>StepName = ''init'', ExtraArgs = [], RunCommand = []\<rparr>"
  let ?plan = "\<lparr>StepName = ''plan'', ExtraArgs = [], RunCommand = []\<rparr>"
  let ?apply = "\<lparr>StepName = ''apply'', ExtraArgs = [''-auto-approve''], RunCommand = []\<rparr>"
  let ?run = "\<lparr>StepName = ''run'', ExtraArgs = [], RunCommand = [''echo'', ''R'']\<rparr>"
  let ?path = "''/data/repo/infra''"
  let ?s1 = "start\<lparr>calls := [StepRunner_Run ''init'' [] ''/data/repo/infra'']\<rparr>"
  let ?s2 = "start\<lparr>calls := [StepRunner_Run ''init'' [] ''/data/repo/infra'',
                     StepRunner_Run ''plan'' [] ''/data/repo/infra'']\<rparr>"
  have ni: "StepName ?init = ''init''" and np: "StepName ?plan = ''plan''"
    and na: "StepName ?apply = ''apply''" and nr: "StepName ?run = ''run''"
    by simp_all
  have "runSteps ?p [?init] example_ctx ?path start =
      (case InitStepRunner ?p example_ctx (ExtraArgs ?init) ?path (world start) of
         ((out, err), w') \<Rightarrow>
           ((keep_output out, err),
            \<lparr>world = w',
             calls = calls start @ [StepRunner_Run ''init'' (ExtraArgs ?init) ?path]\<rparr>))"
    using runSteps_in_order_until_first_error
      [where step = ?init and p = ?p and ctx = example_ctx and absPath = ?path and s = start] ni
    by blast
  then have pre: "runSteps ?p [?init] example_ctx ?path start = (([''A''], None), ?s1)"
    by (simp add: example_runner_def all_succeed_def start_def keep_output_def)
  have "runSteps ?p [?plan] example_ctx ?path ?s1 =
      (case PlanStepRunner ?p example_ctx (ExtraArgs ?plan) ?path (world ?s1) of
         ((out, err), w') \<Rightarrow>
           ((keep_output out, err),
            \<lparr>world = w',
             calls = calls ?s1 @ [StepRunner_Run ''plan'' (ExtraArgs ?plan) ?path]\<rparr>))"
    using runSteps_in_order_until_first_error
      [where step = ?plan and p = ?p and ctx = example_ctx and absPath = ?path and s = ?s1] np
    by blast
  then have step: "runSteps ?p [?plan] example_ctx ?path ?s1 =
      (([''X''], Some (ErrorString ''E'' False)), ?s2)"
    by (simp add: example_runner_def all_succeed_def start_def keep_output_def)
  have w1: "runSteps ?p ([?init] @ ?plan # Steps defaultApplyStage) example_ctx ?path start =
      (([''A''] @ [''X''], Some (ErrorString ''E'' False)), ?s2)"
    using runSteps_in_order_until_first_error
      [where p = ?p and pre = "[?init]" and ctx = example_ctx and absPath = ?path and s = start
         and outs = "[''A'']" and ?s1.0 = ?s1 and step = ?plan and ?out1.0 = "[''X'']"
         and e = "ErrorString ''E'' False" and ?s2.0 = ?s2 and post = "Steps defaultApplyStage"]
      pre step
    by blast
  have "runSteps (example_runner all_succeed False) [?apply] example_ctx ?path start =
      (case ApplyStepRunner (example_runner all_succeed False) example_ctx (ExtraArgs ?apply)
              ?path (world start) of
         ((out, err), w') \<Rightarrow>
           ((keep_output out, err),
            \<lparr>world = w',
             calls = calls start @ [StepRunner_Run ''apply'' (ExtraArgs ?apply) ?path]\<rparr>))"
    using runSteps_in_order_until_first_error
      [where step = ?apply and p = "example_runner all_succeed False" and ctx = example_ctx
         and absPath = ?path and s = start] na
    by blast
  then have w2: "runSteps (example_runner all_succeed False) [?apply] example_ctx ?path start =
      (([''C''], None),
       start\<lparr>calls := [StepRunner_Run ''apply'' [''-auto-approve''] ''/data/repo/infra'']\<rparr>)"
    by (simp add: example_runner_def all_succeed_def start_def keep_output_def)
  have "runSteps (example_runner (all_succeed\<lparr>run_out := (''R'', None)\<rparr>) False) [?run]
        example_ctx ?path start =
      (case RunStepRunner (example_runner (all_succeed\<lparr>run_out := (''R'', None)\<rparr>) False)
              example_ctx (RunCommand ?run) ?path (world start) of
         ((out, err), w') \<Rightarrow>
           ((keep_output out, err),
            \<lparr>world = w',
             calls = calls start @ [StepRunner_Run ''run'' (RunCommand ?run) ?path]\<rparr>))"
    using runSteps_in_order_until_first_error
      [where step = ?run and p = "example_runner (all_succeed\<lparr>run_out := (''R'', None)\<rparr>) False"
         and ctx = example_ctx and absPath = ?path and s = start] nr
    by blast
  then have w3: "runSteps (example_runner (all_succeed\<lparr>run_out := (''R'', None)\<rparr>) False) [?run]
        example_ctx ?path start =
      (([''R''], None),
       start\<lparr>calls := [StepRunner_Run ''run'' [''echo'', ''R''] ''/data/repo/infra'']\<rparr>)"
    by (simp add: example_runner_def all_succeed_def start_def keep_output_def)
  from w1 w2 w3 show ?thesis
    by (simp add: defaultPlanStage_def)
qed

text \<open>
  The claim as worded, with the outputs returned being those accumulated before
  the failing step, fails when the failing step prints something: with init
  printing "A" and plan printing "X" and failing with "E", the outputs accumulated
  when plan starts are "A" alone and the pipeline returns "A" and "X".
\<close>

theorem runSteps_failing_step_output_counterexample:
  "fst (runSteps (example_runner
                    (all_succeed\<lparr>plan_out := (''X'', Some (ErrorString ''E'' False))\<rparr>) False)
          [\<lparr>StepName = ''init'', ExtraArgs = [], RunCommand = []\<rparr>]
          example_ctx ''/data/repo/infra'' start) = ([''A''], None) \<and>
   fst (runSteps (example_runner
                    (all_succeed\<lparr>plan_out := (''X'', Some (ErrorString ''E'' False))\<rparr>) False)
          [\<lparr>StepName = ''init'', ExtraArgs = [], RunCommand = []\<rparr>,
           \<lparr>StepName = ''plan'', ExtraArgs = [], RunCommand = []\<rparr>]
          example_ctx ''/data/repo/infra'' start) =
     ([''A'', ''X''], Some (ErrorString ''E'' False)) \<and>
   fst (runSteps (example_runner
                    (all_succeed\<lparr>plan_out := (''X'', Some (ErrorString ''E'' False))\<rparr>) False)
          [\<lparr>StepName = ''init'', ExtraArgs = [], RunCommand = []\<rparr>,
           \<lparr>StepName = ''plan'', ExtraArgs = [], RunCommand = []\<rparr>]
          example_ctx ''/data/repo/infra'' start) \<noteq>
     ([''A''], Some (ErrorString ''E'' False))"
  by (simp add: runner_defs example_defs)

text \<open>
  C9. A step whose name is not init, plan, apply or run is skipped: no runner is
  called for it (the state, which holds the trace of calls, is unchanged), it has no
  output and no error, and the pipeline's result and final state are those of the
  same sequence without that step.
\<close>

theorem runSteps_skips_unknown_step:
  assumes "StepName step \<notin> {''init'', ''plan'', ''apply'', ''run''}"
  shows "runStep p ctx absPath step s = (('''', None), s) \<and>
     runSteps p (pre @ step # post) ctx absPath s = runSteps p (pre @ post) ctx absPath s"
proof -
  from assms have u: "\<not> known_step step"
    by (simp add: known_step_def)
  obtain o1 r1 s1 where pre: "runSteps p pre ctx absPath s = ((o1, r1), s1)"
    by (metis prod.exhaust)
  have "runSteps p (pre @ step # post) ctx absPath s = runSteps p (pre @ post) ctx absPath s"
  proof (cases r1)
    case (Some e)
    with pre show ?thesis by (simp add: runSteps_append_error)
  next
    case None
    obtain o2 r2 s2 where post: "runSteps p post ctx absPath s1 = ((o2, r2), s2)"
      by (metis prod.exhaust)
    have "runSteps p (step # post) ctx absPath s1 = ((o2, r2), s2)"
      using u post by (simp add: runSteps_skip_head)
    with pre None post show ?thesis
      by (simp add: runSteps_append_ok)
  qed
  with runStep_unknown [OF u] show ?thesis by simp
qed

theorem runSteps_skips_unknown_step_witness:
  "runSteps (example_runner all_succeed False)
     ([\<lparr>StepName = ''init'', ExtraArgs = [], RunCommand = []\<rparr>] @
      \<lparr>StepName = ''show'', ExtraArgs = [], RunCommand = []\<rparr> #
      [\<lparr>StepName = ''plan'', ExtraArgs = [], RunCommand = []\<rparr>])
     example_ctx ''/data/repo/infra'' start =
   (([''A'', ''B''], None),
    start\<lparr>calls := [StepRunner_Run ''init'' [] ''/data/repo/infra'',
                     StepRunner_Run ''plan'' [] ''/data/repo/infra'']\<rparr>)"
proof -
  let ?p = "example_runner all_succeed False"
  let ?init = "\<lparr>StepName = ''init'', ExtraArgs = [], RunCommand = []\<rparr>"
  let ?show = "\<lparr>StepName = ''show'', ExtraArgs = [], RunCommand = []\<rparr>"
  let ?plan = "\<lparr>StepName = ''plan'', ExtraArgs = [], RunCommand = []\<rparr>"
  have h: "StepName ?show \<notin> {''init'', ''plan'', ''apply'', ''run''}"
    by simp
  have without: "runSteps ?p ([?init] @ [?plan]) example_ctx ''/data/repo/infra'' start =
   (([''A'', ''B''], None),
    start\<lparr>calls := [StepRunner_Run ''init'' [] ''/data/repo/infra'',
                     StepRunner_Run ''plan'' [] ''/data/repo/infra'']\<rparr>)"
    by (simp add: runner_defs example_defs)
  have "runSteps ?p ([?init] @ ?show # [?plan]) example_ctx ''/data/repo/infra'' start =
        runSteps ?p ([?init] @ [?plan]) example_ctx ''/data/repo/infra'' start"
    using runSteps_skips_unknown_step
      [OF h, of ?p example_ctx "''/data/repo/infra''" start "[?init]" "[?plan]"]
    by blast
  with without show ?thesis
    by simp
qed

section \<open>Facts about texts\<close>

lemma strings_HasPrefix_append: "strings_HasPrefix (a @ b) a"
  by (induction a) simp_all

lemma strings_HasPrefix_self: "strings_HasPrefix a a"
  using strings_HasPrefix_append [of a "[]"] by simp

lemma strings_Contains_self: "strings_Contains a a"
  by (cases a) (simp_all add: strings_HasPrefix_self del: strings_HasPrefix.simps)

lemma strings_Contains_suffix: "strings_Contains (a @ b) b"
  by (induction a) (simp_all add: strings_Contains_self)

lemma strings_Contains_prefix: "strings_Contains (a @ b) a"
proof (cases "a @ b")
  case Nil
  then show ?thesis by simp
next
  case (Cons x xs)
  have "strings_HasPrefix (x # xs) a"
    using strings_HasPrefix_append [of a b] Cons by simp
  with Cons show ?thesis by simp
qed

lemma occurs_before_append: "occurs_before a b (a @ m @ b)"
proof (cases "a @ m @ b")
  case Nil
  then show ?thesis by simp
next
  case (Cons x xs)
  have "strings_HasPrefix (x # xs) a"
    using strings_HasPrefix_append [of a "m @ b"] Cons by simp
  moreover have "strings_Contains (drop (length a) (x # xs)) b"
    using strings_Contains_suffix [of m b] Cons [symmetric] by simp
  ultimately have "occurs_before a b (x # xs)" by simp
  then show ?thesis by (simp add: Cons)
qed

section \<open>Properties of Plan\<close>

lemma invoke_eq:
  "f (world s) = (r, w') \<Longrightarrow> invoke c f s = (r, \<lparr>world = w', calls = calls s @ [c]\<rparr>)"
  by (simp add: invoke_def)

text \<open>
  C5. When the project locker returns no error and an attempt that did not acquire
  the lock, Plan returns the attempt's failure reason, with no error and no plan or
  apply success, and the only collaborator call of the run is the call of the
  project locker: the working-directory lock is not requested, nothing is cloned and
  no step is run.
\<close>

theorem Plan_lock_not_acquired:
  assumes "Locker p (Pull ctx) (User ctx) (Workspace ctx) (FullName (BaseRepo ctx))
             (RepoRelDir ctx) (world s) = ((lockAttempt, None), w1)"
    and "\<not> LockAcquired lockAttempt"
  shows "Plan p ctx s =
     (\<lparr>PlanSuccess = None, ApplySuccess = '''', Failure = LockFailureReason lockAttempt,
       Error = None, RepoRelDir_out = RepoRelDir ctx, Workspace_out = Workspace ctx,
       ProjectName_out = ProjectName ctx\<rparr>,
      \<lparr>world = w1,
       calls = calls s @ [Locker_TryLock (Pull ctx) (User ctx) (Workspace ctx)
                            (FullName (BaseRepo ctx)) (RepoRelDir ctx)]\<rparr>)"
  using assms by (simp add: Plan_def doPlan_def call_Locker_TryLock_def invoke_def)

theorem Plan_lock_not_acquired_witness:
  "Plan (example_runner
           (all_succeed\<lparr>lock_acquired := False, lock_reason := ''locked by pull 3''\<rparr>) False)
     example_ctx start =
     (\<lparr>PlanSuccess = None, ApplySuccess = '''', Failure = ''locked by pull 3'',
       Error = None, RepoRelDir_out = ''infra'', Workspace_out = ''default'',
       ProjectName_out = ''''\<rparr>,
      \<lparr>world = \<lparr>project_lock_held = False, workdir_lock_held = False\<rparr>,
       calls = [Locker_TryLock example_pull ''alice'' ''default'' ''owner/repo'' ''infra'']\<rparr>)"
proof -
  let ?oc = "all_succeed\<lparr>lock_acquired := False, lock_reason := ''locked by pull 3''\<rparr>"
  let ?p = "example_runner ?oc False"
  have h1: "Locker ?p (Pull example_ctx) (User example_ctx) (Workspace example_ctx)
      (FullName (BaseRepo example_ctx)) (RepoRelDir example_ctx) (world start) =
      ((example_attempt ?oc, None), world start)"
    by (simp add: example_runner_def all_succeed_def)
  have h2: "\<not> LockAcquired (example_attempt ?oc)"
    by (simp add: example_attempt_def)
  from Plan_lock_not_acquired [OF h1 h2] show ?thesis
    by (simp add: example_attempt_def example_ctx_def start_def example_repo_def)
qed

text \<open>
  The sibling paths of the failure of the working-directory lock: when the clone
  fails, and when the pipeline fails, \<^verbatim>\<open>doPlan\<close> calls the attempt's release function
  before it returns the error.
\<close>

lemma Plan_clone_failure_releases_lock:
  assumes "call_Locker_TryLock p ctx s = ((lockAttempt, None), s1)"
    and "LockAcquired lockAttempt"
    and "call_WorkingDirLocker_TryLock p ctx s1 = ((unlockFn, None), s2)"
    and "call_Clone p ctx s2 = ((repoDir, Some cloneErr), s3)"
  shows "Error (fst (Plan p ctx s)) = Some cloneErr \<and>
     snd (Plan p ctx s) = deferred_unlockFn ctx unlockFn (snd (call_UnlockFn lockAttempt s3))"
  using assms by (simp add: Plan_def doPlan_def doPlan_locked_def split: prod.splits)

lemma Plan_step_failure_releases_lock:
  assumes "call_Locker_TryLock p ctx s = ((lockAttempt, None), s1)"
    and "LockAcquired lockAttempt"
    and "call_WorkingDirLocker_TryLock p ctx s1 = ((unlockFn, None), s2)"
    and "call_Clone p ctx s2 = ((repoDir, None), s3)"
    and "runSteps p (Steps (planStage ctx)) ctx (filepath_Join p repoDir (RepoRelDir ctx)) s3 =
           ((outputs, Some err), s4)"
  shows "Error (fst (Plan p ctx s)) = Some (fmt_Errorf_err_outputs err outputs) \<and>
     snd (Plan p ctx s) = deferred_unlockFn ctx unlockFn (snd (call_UnlockFn lockAttempt s4))"
  using assms by (simp add: Plan_def doPlan_def doPlan_locked_def split: prod.splits)

lemma call_UnlockFn_calls:
  "calls (snd (call_UnlockFn lockAttempt s)) = calls s @ [LockAttempt_UnlockFn (LockKey lockAttempt)]"
  by (simp add: call_UnlockFn_def invoke_calls)

lemma Plan_workdir_lock_failure_returns_at_once:
  assumes "call_Locker_TryLock p ctx s = ((lockAttempt, None), s1)"
    and "LockAcquired lockAttempt"
    and "call_WorkingDirLocker_TryLock p ctx s1 = ((unlockFn, Some err), s2)"
  shows "Error (fst (Plan p ctx s)) = Some err \<and> snd (Plan p ctx s) = s2 \<and>
     calls s2 = calls s @
       [Locker_TryLock (Pull ctx) (User ctx) (Workspace ctx) (FullName (BaseRepo ctx))
          (RepoRelDir ctx),
        WorkingDirLocker_TryLock (FullName (BaseRepo ctx)) (Num (Pull ctx)) (Workspace ctx)]"
proof -
  have "calls (snd (call_Locker_TryLock p ctx s)) = calls s @
       [Locker_TryLock (Pull ctx) (User ctx) (Workspace ctx) (FullName (BaseRepo ctx))
          (RepoRelDir ctx)]"
    by (simp add: call_Locker_TryLock_def invoke_calls)
  with assms(1) have c1: "calls s1 = calls s @
       [Locker_TryLock (Pull ctx) (User ctx) (Workspace ctx) (FullName (BaseRepo ctx))
          (RepoRelDir ctx)]"
    by simp
  have "calls (snd (call_WorkingDirLocker_TryLock p ctx s1)) = calls s1 @
       [WorkingDirLocker_TryLock (FullName (BaseRepo ctx)) (Num (Pull ctx)) (Workspace ctx)]"
    by (simp add: call_WorkingDirLocker_TryLock_def invoke_calls)
  with assms(3) have c2: "calls s2 = calls s1 @
       [WorkingDirLocker_TryLock (FullName (BaseRepo ctx)) (Num (Pull ctx)) (Workspace ctx)]"
    by simp
  from assms c1 c2 show ?thesis
    by (simp add: Plan_def doPlan_def)
qed

text \<open>
  C1. When the working-directory lock cannot be taken after the project lock was
  acquired, \<^verbatim>\<open>doPlan\<close> returns the error at once: the release function of the project
  lock is not called, and the project lock is still held when Plan returns.
\<close>

theorem Plan_workdir_lock_failure_keeps_project_lock:
  "Plan (example_runner
           (all_succeed\<lparr>workdir_lock_err := Some (ErrorString ''workspace is locked'' False)\<rparr>)
           False)
     example_ctx start =
     (\<lparr>PlanSuccess = None, ApplySuccess = '''', Failure = '''',
       Error = Some (ErrorString ''workspace is locked'' False),
       RepoRelDir_out = ''infra'', Workspace_out = ''default'', ProjectName_out = ''''\<rparr>,
      \<lparr>world = \<lparr>project_lock_held = True, workdir_lock_held = False\<rparr>,
       calls = [Locker_TryLock example_pull ''alice'' ''default'' ''owner/repo'' ''infra'',
                WorkingDirLocker_TryLock ''owner/repo'' 7 ''default'']\<rparr>)"
  by (simp add: runner_defs example_defs)

section \<open>Properties of Apply\<close>

text \<open>
  C6. When the lookup of the working directory fails, Apply returns an error and the
  lookup is the only collaborator call of the run, so the working-directory lock is
  not requested and no step is run. For an error that \<^verbatim>\<open>os.IsNotExist\<close> recognises
  the error returned is a new one with the text "project has not been cloned", an en
  dash (bytes E2 80 93) and "did you run plan?", which is itself no not-exist
  error; every other error is returned as it is.
\<close>

theorem Apply_working_dir_lookup_fails:
  assumes "WorkingDir_GetWorkingDir_fn p (BaseRepo ctx) (Pull ctx) (Workspace ctx) (world s) =
             ((repoDir, Some err), w1)"
  shows "Apply p ctx s =
     (\<lparr>PlanSuccess = None, ApplySuccess = '''', Failure = '''',
       Error = Some (if os_IsNotExist err
                     then ErrorString
                            (''project has not been cloned'' @ [CHR 0xE2, CHR 0x80, CHR 0x93] @
                             ''did you run plan?'') False
                     else err),
       RepoRelDir_out = RepoRelDir ctx, Workspace_out = Workspace ctx,
       ProjectName_out = ProjectName ctx\<rparr>,
      \<lparr>world = w1,
       calls = calls s @ [WorkingDir_GetWorkingDir (BaseRepo ctx) (Pull ctx) (Workspace ctx)]\<rparr>) \<and>
     errors_New not_cloned_message =
       ErrorString
         (''project has not been cloned'' @ [CHR 0xE2, CHR 0x80, CHR 0x93] @
          ''did you run plan?'') False \<and>
     Error_text (errors_New not_cloned_message) =
       ''project has not been cloned'' @ [CHR 0xE2, CHR 0x80, CHR 0x93] @ ''did you run plan?'' \<and>
     strings_Contains (Error_text (errors_New not_cloned_message))
       ''project has not been cloned'' \<and>
     \<not> os_IsNotExist (errors_New not_cloned_message)"
proof -
  have "Apply p ctx s =
     (\<lparr>PlanSuccess = None, ApplySuccess = '''', Failure = '''',
       Error = Some (if os_IsNotExist err then errors_New not_cloned_message else err),
       RepoRelDir_out = RepoRelDir ctx, Workspace_out = Workspace ctx,
       ProjectName_out = ProjectName ctx\<rparr>,
      \<lparr>world = w1,
       calls = calls s @ [WorkingDir_GetWorkingDir (BaseRepo ctx) (Pull ctx) (Workspace ctx)]\<rparr>)"
    using assms by (simp add: Apply_def doApply_def call_GetWorkingDir_def invoke_def)
  moreover have "errors_New not_cloned_message =
       ErrorString
         (''project has not been cloned'' @ [CHR 0xE2, CHR 0x80, CHR 0x93] @
          ''did you run plan?'') False"
    by (simp add: errors_New_def not_cloned_message_def)
  moreover have "strings_Contains
       ((''project has not been cloned'') @ ([CHR 0xE2, CHR 0x80, CHR 0x93] @ ''did you run plan?''))
       ''project has not been cloned''"
    by (rule strings_Contains_prefix)
  ultimately show ?thesis by simp
qed

theorem Apply_working_dir_lookup_fails_witness:
  "Apply (example_runner
            (all_succeed\<lparr>getwd_out := ('''', Some (ErrorString ''no such file or directory'' True))\<rparr>)
            False)
     example_ctx start =
     (\<lparr>PlanSuccess = None, ApplySuccess = '''', Failure = '''',
       Error = Some (ErrorString
                       (''project has not been cloned'' @ [CHR 0xE2, CHR 0x80, CHR 0x93] @
                        ''did you run plan?'') False),
       RepoRelDir_out = ''infra'', Workspace_out = ''default'', ProjectName_out = ''''\<rparr>,
      start\<lparr>calls := [WorkingDir_GetWorkingDir example_repo example_pull ''default'']\<rparr>) \<and>
   Apply (example_runner
            (all_succeed\<lparr>getwd_out := ('''', Some (ErrorString ''permission denied'' False))\<rparr>)
            False)
     example_ctx start =
     (\<lparr>PlanSuccess = None, ApplySuccess = '''', Failure = '''',
       Error = Some (ErrorString ''permission denied'' False),
       RepoRelDir_out = ''infra'', Workspace_out = ''default'', ProjectName_out = ''''\<rparr>,
      start\<lparr>calls := [WorkingDir_GetWorkingDir example_repo example_pull ''default'']\<rparr>)"
proof -
  let ?e1 = "ErrorString ''no such file or directory'' True"
  let ?e2 = "ErrorString ''permission denied'' False"
  let ?p1 = "example_runner (all_succeed\<lparr>getwd_out := ('''', Some ?e1)\<rparr>) False"
  let ?p2 = "example_runner (all_succeed\<lparr>getwd_out := ('''', Some ?e2)\<rparr>) False"
  have h1: "WorkingDir_GetWorkingDir_fn ?p1 (BaseRepo example_ctx) (Pull example_ctx)
      (Workspace example_ctx) (world start) = (('''', Some ?e1), world start)"
    by (simp add: example_runner_def all_succeed_def)
  have h2: "WorkingDir_GetWorkingDir_fn ?p2 (BaseRepo example_ctx) (Pull example_ctx)
      (Workspace example_ctx) (world start) = (('''', Some ?e2), world start)"
    by (simp add: example_runner_def all_succeed_def)
  from conjunct1 [OF Apply_working_dir_lookup_fails [OF h1]]
    conjunct1 [OF Apply_working_dir_lookup_fails [OF h2]]
  show ?thesis
    by (simp add: example_ctx_def start_def)
qed








section \<open>The error of a failed pipeline\<close>

text \<open>
  C2, as the code has it. When the pipeline fails in Plan (after the project lock,
  the working-directory lock and the clone succeeded) or in Apply (after the lookup,
  the requirements and the working-directory lock succeeded), the error returned is
  the one built by \<^verbatim>\<open>fmt.Errorf("%s\n%s", err, strings.Join(outputs, "\n"))\<close>: its text
  is the failure message, a newline, and the accumulated outputs joined by newlines.
  It contains both, and the failure message comes first.
\<close>

theorem step_failure_error_message:
  "(call_Locker_TryLock p ctx s = ((lockAttempt, None), s1) \<and> LockAcquired lockAttempt \<and>
      call_WorkingDirLocker_TryLock p ctx s1 = ((unlockFn, None), s2) \<and>
      call_Clone p ctx s2 = ((repoDir, None), s3) \<and>
      runSteps p (Steps (planStage ctx)) ctx (filepath_Join p repoDir (RepoRelDir ctx)) s3 =
        ((outputs, Some err), s4) \<longrightarrow>
      PlanSuccess (fst (Plan p ctx s)) = None \<and> Failure (fst (Plan p ctx s)) = '''' \<and>
      Error (fst (Plan p ctx s)) = Some (fmt_Errorf_err_outputs err outputs)) \<and>
   (call_GetWorkingDir p ctx s = ((repoDir, None), s1) \<and>
      checkApplyRequirements p ctx (applyRequirements p ctx) s1 = (None, s2) \<and>
      call_WorkingDirLocker_TryLock p ctx s2 = ((unlockFn, None), s3) \<and>
      runSteps p (Steps (applyStage ctx)) ctx (filepath_Join p repoDir (RepoRelDir ctx)) s3 =
        ((outputs, Some err), s4) \<longrightarrow>
      ApplySuccess (fst (Apply p ctx s)) = '''' \<and> Failure (fst (Apply p ctx s)) = '''' \<and>
      Error (fst (Apply p ctx s)) = Some (fmt_Errorf_err_outputs err outputs)) \<and>
   Error_text (fmt_Errorf_err_outputs err outputs) =
     Error_text err @ newline @ strings_Join outputs newline \<and>
   strings_Contains (Error_text (fmt_Errorf_err_outputs err outputs)) (Error_text err) \<and>
   strings_Contains (Error_text (fmt_Errorf_err_outputs err outputs))
     (strings_Join outputs newline) \<and>
   occurs_before (Error_text err) (strings_Join outputs newline)
     (Error_text (fmt_Errorf_err_outputs err outputs))"
proof (intro conjI)
  show "call_Locker_TryLock p ctx s = ((lockAttempt, None), s1) \<and> LockAcquired lockAttempt \<and>
      call_WorkingDirLocker_TryLock p ctx s1 = ((unlockFn, None), s2) \<and>
      call_Clone p ctx s2 = ((repoDir, None), s3) \<and>
      runSteps p (Steps (planStage ctx)) ctx (filepath_Join p repoDir (RepoRelDir ctx)) s3 =
        ((outputs, Some err), s4) \<longrightarrow>
      PlanSuccess (fst (Plan p ctx s)) = None \<and> Failure (fst (Plan p ctx s)) = '''' \<and>
      Error (fst (Plan p ctx s)) = Some (fmt_Errorf_err_outputs err outputs)"
  proof (rule impI)
    assume "call_Locker_TryLock p ctx s = ((lockAttempt, None), s1) \<and> LockAcquired lockAttempt \<and>
      call_WorkingDirLocker_TryLock p ctx s1 = ((unlockFn, None), s2) \<and>
      call_Clone p ctx s2 = ((repoDir, None), s3) \<and>
      runSteps p (Steps (planStage ctx)) ctx (filepath_Join p repoDir (RepoRelDir ctx)) s3 =
        ((outputs, Some err), s4)"
    then have "fst (doPlan p ctx s) = (None, '''', Some (fmt_Errorf_err_outputs err outputs))"
      by (simp add: doPlan_def doPlan_locked_def split: prod.splits)
    then show "PlanSuccess (fst (Plan p ctx s)) = None \<and> Failure (fst (Plan p ctx s)) = '''' \<and>
      Error (fst (Plan p ctx s)) = Some (fmt_Errorf_err_outputs err outputs)"
      by (simp add: Plan_def case_prod_beta)
  qed
next
  show "call_GetWorkingDir p ctx s = ((repoDir, None), s1) \<and>
      checkApplyRequirements p ctx (applyRequirements p ctx) s1 = (None, s2) \<and>
      call_WorkingDirLocker_TryLock p ctx s2 = ((unlockFn, None), s3) \<and>
      runSteps p (Steps (applyStage ctx)) ctx (filepath_Join p repoDir (RepoRelDir ctx)) s3 =
        ((outputs, Some err), s4) \<longrightarrow>
      ApplySuccess (fst (Apply p ctx s)) = '''' \<and> Failure (fst (Apply p ctx s)) = '''' \<and>
      Error (fst (Apply p ctx s)) = Some (fmt_Errorf_err_outputs err outputs)"
  proof (rule impI)
    assume "call_GetWorkingDir p ctx s = ((repoDir, None), s1) \<and>
      checkApplyRequirements p ctx (applyRequirements p ctx) s1 = (None, s2) \<and>
      call_WorkingDirLocker_TryLock p ctx s2 = ((unlockFn, None), s3) \<and>
      runSteps p (Steps (applyStage ctx)) ctx (filepath_Join p repoDir (RepoRelDir ctx)) s3 =
        ((outputs, Some err), s4)"
    then have "fst (doApply p ctx s) = ('''', '''', Some (fmt_Errorf_err_outputs err outputs))"
      by (simp add: doApply_def doApply_locked_def split: prod.splits)
    then show "ApplySuccess (fst (Apply p ctx s)) = '''' \<and> Failure (fst (Apply p ctx s)) = '''' \<and>
      Error (fst (Apply p ctx s)) = Some (fmt_Errorf_err_outputs err outputs)"
      by (simp add: Apply_def case_prod_beta)
  qed
next
  show "Error_text (fmt_Errorf_err_outputs err outputs) =
     Error_text err @ newline @ strings_Join outputs newline"
    by (simp add: fmt_Errorf_err_outputs_def)
next
  show "strings_Contains (Error_text (fmt_Errorf_err_outputs err outputs)) (Error_text err)"
    by (simp add: fmt_Errorf_err_outputs_def strings_Contains_prefix)
next
  have "strings_Contains ((Error_text err @ newline) @ strings_Join outputs newline)
     (strings_Join outputs newline)"
    by (rule strings_Contains_suffix)
  then show "strings_Contains (Error_text (fmt_Errorf_err_outputs err outputs))
     (strings_Join outputs newline)"
    by (simp add: fmt_Errorf_err_outputs_def)
next
  show "occurs_before (Error_text err) (strings_Join outputs newline)
     (Error_text (fmt_Errorf_err_outputs err outputs))"
    by (simp add: fmt_Errorf_err_outputs_def occurs_before_append)
qed

theorem step_failure_error_message_witness:
  "Error (fst (Plan (example_runner
                       (all_succeed\<lparr>plan_out := ('''', Some (ErrorString ''E'' False))\<rparr>) False)
                 example_ctx start)) =
     Some (ErrorString (''E'' @ newline @ ''A'') False) \<and>
   occurs_before ''E'' ''A'' (''E'' @ newline @ ''A'')"
proof -
  let ?e = "ErrorString ''E'' False"
  let ?p = "example_runner (all_succeed\<lparr>plan_out := ('''', Some ?e)\<rparr>) False"
  let ?s1 = "\<lparr>world = \<lparr>project_lock_held = True, workdir_lock_held = False\<rparr>,
      calls = [Locker_TryLock example_pull ''alice'' ''default'' ''owner/repo'' ''infra'']\<rparr>"
  let ?s2 = "\<lparr>world = \<lparr>project_lock_held = True, workdir_lock_held = True\<rparr>,
      calls = [Locker_TryLock example_pull ''alice'' ''default'' ''owner/repo'' ''infra'',
               WorkingDirLocker_TryLock ''owner/repo'' 7 ''default'']\<rparr>"
  let ?s3 = "\<lparr>world = \<lparr>project_lock_held = True, workdir_lock_held = True\<rparr>,
      calls = [Locker_TryLock example_pull ''alice'' ''default'' ''owner/repo'' ''infra'',
               WorkingDirLocker_TryLock ''owner/repo'' 7 ''default'',
               WorkingDir_Clone example_repo example_repo example_pull False ''default'']\<rparr>"
  let ?s4 = "\<lparr>world = \<lparr>project_lock_held = True, workdir_lock_held = True\<rparr>,
      calls = [Locker_TryLock example_pull ''alice'' ''default'' ''owner/repo'' ''infra'',
               WorkingDirLocker_TryLock ''owner/repo'' 7 ''default'',
               WorkingDir_Clone example_repo example_repo example_pull False ''default'',
               StepRunner_Run ''init'' [] ''/data/repo/infra'',
               StepRunner_Run ''plan'' [] ''/data/repo/infra'']\<rparr>"
  let ?la = "example_attempt (all_succeed\<lparr>plan_out := ('''', Some ?e)\<rparr>)"
  have h1: "call_Locker_TryLock ?p example_ctx start = ((?la, None), ?s1)"
    by (simp add: call_Locker_TryLock_def invoke_def example_runner_def all_succeed_def
        example_ctx_def start_def example_repo_def)
  have h2: "LockAcquired ?la"
    by (simp add: example_attempt_def all_succeed_def)
  have h3: "call_WorkingDirLocker_TryLock ?p example_ctx ?s1 = ((example_workdir_unlock, None), ?s2)"
    by (simp add: call_WorkingDirLocker_TryLock_def invoke_def example_runner_def all_succeed_def
        example_ctx_def example_repo_def example_pull_def)
  have h4: "call_Clone ?p example_ctx ?s2 = ((''/data/repo'', None), ?s3)"
    by (simp add: call_Clone_def invoke_def example_runner_def all_succeed_def example_ctx_def)
  have h5: "runSteps ?p (Steps (planStage example_ctx)) example_ctx
      (filepath_Join ?p ''/data/repo'' (RepoRelDir example_ctx)) ?s3 = (([''A''], Some ?e), ?s4)"
    by (simp add: runSteps_def runStep_def invoke_def planStage_def defaultPlanStage_def
        example_runner_def all_succeed_def example_ctx_def)
  have "Error (fst (Plan ?p example_ctx start)) = Some (fmt_Errorf_err_outputs ?e [''A''])"
    using step_failure_error_message
      [of ?p example_ctx start ?la ?s1 example_workdir_unlock ?s2 "''/data/repo''" ?s3
          "[''A'']" ?e ?s4]
      h1 h2 h3 h4 h5
    by blast
  moreover have "occurs_before (Error_text ?e) (strings_Join [''A''] newline)
     (Error_text (fmt_Errorf_err_outputs ?e [''A'']))"
    using step_failure_error_message [of ?p example_ctx start _ _ _ _ _ _ "[''A'']" ?e]
    by blast
  ultimately show ?thesis
    by (simp add: fmt_Errorf_err_outputs_def)
qed

text \<open>
  The claim as the spec words it fails on the default plan stage when init prints
  "A" and plan fails with "E": the error text is "E", a newline, "A", in which no
  occurrence of the output is followed by the failure message.
\<close>

theorem step_failure_output_first_counterexample:
  "fst (runSteps (example_runner
                    (all_succeed\<lparr>plan_out := ('''', Some (ErrorString ''E'' False))\<rparr>) False)
          (Steps defaultPlanStage) example_ctx ''/data/repo/infra'' start) =
     ([''A''], Some (ErrorString ''E'' False)) \<and>
   Error (fst (Plan (example_runner
                       (all_succeed\<lparr>plan_out := ('''', Some (ErrorString ''E'' False))\<rparr>) False)
                 example_ctx start)) =
     Some (ErrorString (''E'' @ newline @ ''A'') False) \<and>
   \<not> occurs_before ''A'' ''E'' (''E'' @ newline @ ''A'')"
  by (simp add: runner_defs example_defs)

section \<open>The shape of results\<close>








section \<open>The approval check of the GitHub client\<close>

text \<open>
  C4. \<^verbatim>\<open>PullIsApproved\<close> returns the pull request's \<^verbatim>\<open>Mergeable\<close> flag. For a pull
  request that GitHub reports as mergeable and that has no review it returns true;
  for one with an approving review that is not mergeable it returns false.
\<close>

theorem PullIsApproved_returns_Mergeable:
  "PullIsApproved (github_serving \<lparr>pull_object = \<lparr>Mergeable = Some True\<rparr>, review_states = []\<rparr>)
     example_repo example_pull = Returns (True, None) \<and>
   \<not> approved_by_review \<lparr>pull_object = \<lparr>Mergeable = Some True\<rparr>, review_states = []\<rparr> \<and>
   PullIsApproved (github_serving \<lparr>pull_object = \<lparr>Mergeable = Some False\<rparr>,
                                   review_states = [''APPROVED'']\<rparr>)
     example_repo example_pull = Returns (False, None) \<and>
   approved_by_review \<lparr>pull_object = \<lparr>Mergeable = Some False\<rparr>, review_states = [''APPROVED'']\<rparr>"
  by (simp add: PullIsApproved_def GetPullRequest_def github_serving_def approved_by_review_def)

text \<open>
  C10. When \<^verbatim>\<open>GetPullRequest\<close> succeeds with a pull request whose \<^verbatim>\<open>Mergeable\<close> field is
  nil, \<^verbatim>\<open>PullIsApproved\<close> dereferences the nil pointer and panics.
\<close>

theorem PullIsApproved_nil_Mergeable_panics:
  "GetPullRequest (github_serving \<lparr>pull_object = \<lparr>Mergeable = None\<rparr>, review_states = []\<rparr>)
     example_repo (Num example_pull) = (Some \<lparr>Mergeable = None\<rparr>, None) \<and>
   PullIsApproved (github_serving \<lparr>pull_object = \<lparr>Mergeable = None\<rparr>, review_states = []\<rparr>)
     example_repo example_pull = Panics"
  by (simp add: PullIsApproved_def GetPullRequest_def github_serving_def)

end
